theory Spec2Isabelle
  imports Main
begin

section \<open>The batched Snake environment of game_env_parallel.py\<close>

text \<open>
  The class \<open>Snake\<close> keeps \<open>games\<close> boards of side \<open>board_size\<close> in numpy arrays of
  shape (games, board_size, board_size). An array is modelled as a nested list of
  integers (the float arrays of the source only ever hold small whole numbers), the
  \<open>uint8\<close> arrays with their wrap-around modulo 256 written out. The deque of frames is
  a list whose element 0 is the leftmost, most recent frame. Every exception of the
  source is a value of \<open>py_error\<close>, returned on the left of a sum.

  The shuffled index sequence that \<open>_get_food\<close> draws from \<open>np.random\<close> is a parameter
  \<open>seq\<close> of the functions that consume it.
\<close>

datatype py_error = AttributeError | IndexError | ValueError

type_synonym grid = "int list list"
type_synonym batch = "grid list"

text \<open>The cell codes of \<open>self._value\<close>.\<close>

definition v_snake :: int where "v_snake = 1"
definition v_board :: int where "v_board = 0"
definition v_food :: int where "v_food = 3"
definition v_head :: int where "v_head = 2"
definition v_border :: int where "v_border = 4"

text \<open>The dictionary \<open>self._rewards\<close> with its keys out, food, time and no_food.\<close>

record rewards_t =
  rw_out :: int
  rw_food :: int
  rw_time :: int
  rw_no_food :: int

text \<open>
  The attributes of a \<open>Snake\<close> object. The source never assigns \<open>self._snake\<close> nor
  \<open>self._snake_head\<close>, so the object has no such attributes and the record has no such
  fields: reading them raises \<open>AttributeError\<close>.
\<close>

record snake =
  board_size :: nat
  n_frames :: nat
  n_games :: nat
  rewards :: rewards_t
  start_length :: nat
  max_time_limit :: int
  border :: batch
  board :: "batch list"
  body :: batch
  food :: batch
  head :: batch
  snake_length :: nat
  count_food :: nat
  snake_direction :: "int list"
  time :: "int list"

text \<open>What \<open>_check_if_done\<close> returns on the one path that reaches its return statement.\<close>

record outcome =
  reward :: "int list"
  done_flag :: int
  can_eat_food :: "int list"
  termination_reason :: string

text \<open>What \<open>step\<close> returns: the stacked frames, reward, done and the info dictionary.\<close>

record step_result =
  observation :: "int list list list list"
  st_reward :: "int list"
  st_done :: int
  info_time :: "int list"
  info_food :: nat
  info_reason :: string

subsection \<open>Array helpers\<close>

text \<open>
  \<open>np.pad(g, 1, mode='constant', constant_values=v)\<close> of a square array of side \<open>k\<close>:
  a ring of \<open>v\<close> around \<open>g\<close>.
\<close>

definition np_pad1 :: "int \<Rightarrow> nat \<Rightarrow> grid \<Rightarrow> grid" where
  "np_pad1 v k g =
     map (\<lambda>r. map (\<lambda>c. if 0 < r \<and> r \<le> k \<and> 0 < c \<and> c \<le> k then g ! (r - 1) ! (c - 1) else v)
       [0..<k + 2]) [0..<k + 2]"

text \<open>An array of zeros with a single 1 at row \<open>r0\<close>, column \<open>c0\<close>.\<close>

definition unit_mask :: "nat \<Rightarrow> nat \<Rightarrow> nat \<Rightarrow> grid" where
  "unit_mask S r0 c0 = map (\<lambda>r. map (\<lambda>c. if r = r0 \<and> c = c0 then 1 else 0) [0..<S]) [0..<S]"

text \<open>\<open>a.max()\<close> of a non-empty array, and \<open>(a == v).sum()\<close> over a whole batch.\<close>

definition amax :: "int list \<Rightarrow> int" where
  "amax xs = fold max (tl xs) (hd xs)"

definition count_eq :: "batch \<Rightarrow> int \<Rightarrow> nat" where
  "count_eq b v = length (filter (\<lambda>x. x = v) (concat (concat b)))"

text \<open>A deque with \<open>maxlen\<close>: \<open>append\<close> drops on the left, \<open>appendleft\<close> on the right.\<close>

definition deque_append :: "nat \<Rightarrow> 'a list \<Rightarrow> 'a \<Rightarrow> 'a list" where
  "deque_append maxlen q x = drop (Suc (length q) - maxlen) (q @ [x])"

definition deque_appendleft :: "nat \<Rightarrow> 'a list \<Rightarrow> 'a \<Rightarrow> 'a list" where
  "deque_appendleft maxlen q x = take maxlen (x # q)"

text \<open>The truth value of an array in an \<open>if\<close>: ambiguous with more than one element.\<close>

definition truth :: "int list \<Rightarrow> py_error + bool" where
  "truth xs = (case xs of [] \<Rightarrow> Inr False | [x] \<Rightarrow> Inr (x \<noteq> 0) | _ \<Rightarrow> Inl ValueError)"

subsection \<open>Construction\<close>

text \<open>
  \<open>__init__\<close> with its parameters board_size, frames, games, start_length and
  max_time_limit as naturals (the time limit an integer, -1 for none). \<open>np.ones\<close> of a
  negative side raises, hence the test on the board size. The attributes that only
  \<open>reset\<close> assigns are empty until then.
\<close>

definition init :: "nat \<Rightarrow> nat \<Rightarrow> nat \<Rightarrow> nat \<Rightarrow> int \<Rightarrow> py_error + snake" where
  "init bsize frames games slen mtl =
     (if bsize < 2 then Inl ValueError
      else Inr \<lparr>board_size = bsize, n_frames = frames, n_games = games,
        rewards = \<lparr>rw_out = - 1, rw_food = 1, rw_time = 0, rw_no_food = 0\<rparr>,
        start_length = min slen ((bsize - 2) div 2),
        max_time_limit = mtl,
        border = replicate games
          (np_pad1 v_border (bsize - 2) (replicate (bsize - 2) (replicate (bsize - 2) v_board))),
        board = [], body = [], food = [], head = [],
        snake_length = 0, count_food = 0, snake_direction = [], time = []\<rparr>)"

subsection \<open>Frames\<close>

definition queue_to_board :: "snake \<Rightarrow> py_error + int list list list list" where
  "queue_to_board s =
     (if board s = [] then Inl ValueError
      else Inr (map (\<lambda>n. map (\<lambda>r. map (\<lambda>c. map (\<lambda>fr. fr ! n ! r ! c) (board s))
        [0..<board_size s]) [0..<board_size s]) [0..<n_games s]))"

definition calculate_board :: "snake \<Rightarrow> batch" where
  "calculate_board s =
     map (\<lambda>n. map (\<lambda>r. map (\<lambda>c.
        border s ! n ! r ! c
        + (if body s ! n ! r ! c > 0 then 1 else 0) * v_snake
        + (head s ! n ! r ! c * v_head) mod 256
        + (food s ! n ! r ! c * v_food) mod 256)
       [0..<board_size s]) [0..<board_size s]) [0..<n_games s]"

definition set_first_frame :: "snake \<Rightarrow> py_error + snake" where
  "set_first_frame s =
     (if board s = [] then Inl IndexError
      else Inr (s\<lparr>board := calculate_board s # tl (board s)\<rparr>))"

subsection \<open>Food placement\<close>

text \<open>
  \<open>_get_food\<close>, one definition for each array it computes. \<open>seq\<close> is the shuffled
  \<open>np.arange(0, games * board_size**2)\<close>, read in the shape (games, size, size).
\<close>

definition food_pos :: "snake \<Rightarrow> int list \<Rightarrow> nat \<Rightarrow> nat \<Rightarrow> nat \<Rightarrow> int" where
  "food_pos s seq n r c =
     (if hd (board s) ! n ! r ! c = v_board then 1 else 0)
       * seq ! (n * board_size s * board_size s + r * board_size s + c)"

definition food_pos_max :: "snake \<Rightarrow> int list \<Rightarrow> nat \<Rightarrow> int" where
  "food_pos_max s seq n =
     amax (concat (map (\<lambda>r. map (\<lambda>c. food_pos s seq n r c) [0..<board_size s]) [0..<board_size s]))"

definition food_chosen :: "snake \<Rightarrow> int list \<Rightarrow> nat \<Rightarrow> nat \<Rightarrow> nat \<Rightarrow> int" where
  "food_chosen s seq n r c =
     (if food_pos s seq n r c = food_pos_max s seq n \<and> food_pos s seq n r c > v_board
      then 1 else 0)"

definition food_max :: "snake \<Rightarrow> nat \<Rightarrow> int" where
  "food_max s n = amax (concat (food s ! n))"

definition new_food :: "snake \<Rightarrow> int list \<Rightarrow> batch" where
  "new_food s seq =
     map (\<lambda>n. map (\<lambda>r. map (\<lambda>c.
        (food_chosen s seq n r c * ((1 - food_max s n) mod 256)
          + (food s ! n ! r ! c * food_max s n) mod 256) mod 256)
       [0..<board_size s]) [0..<board_size s]) [0..<n_games s]"

definition get_food :: "snake \<Rightarrow> int list \<Rightarrow> py_error + snake" where
  "get_food s seq =
     (if board s = [] then Inl IndexError
      else if board_size s = 0 then Inl ValueError
      else set_first_frame (s\<lparr>food := new_food s seq\<rparr>))"

subsection \<open>Reset\<close>

text \<open>
  \<open>reset\<close> in its three stages: the arrays of lines 126 to 134, the queue of frames
  of lines 136 to 139, then food, clock and the returned observation.
\<close>

definition reset_arrays :: "snake \<Rightarrow> snake" where
  "reset_arrays s =
     s\<lparr>body := map (\<lambda>n. map (\<lambda>r. map (\<lambda>c.
            if r = board_size s div 2 \<and> 1 \<le> c \<and> c < start_length s
            then int (start_length s - c) else 0)
          [0..<board_size s]) [0..<board_size s]) [0..<n_games s],
       food := replicate (n_games s) (replicate (board_size s) (replicate (board_size s) 0)),
       head := replicate (n_games s)
         (unit_mask (board_size s) (board_size s div 2) (start_length s)),
       snake_length := start_length s,
       count_food := 0,
       snake_direction := replicate (n_games s) 0\<rparr>"

definition fill_queue :: "snake \<Rightarrow> snake" where
  "fill_queue s =
     s\<lparr>board := ((\<lambda>q. deque_append (n_frames s) q (calculate_board s)) ^^ n_frames s) (board s)\<rparr>"

definition reset :: "snake \<Rightarrow> int list \<Rightarrow> py_error + (snake \<times> int list list list list)" where
  "reset s seq =
     (case get_food (fill_queue (reset_arrays s)) seq of
        Inl e \<Rightarrow> Inl e
      | Inr s3 \<Rightarrow>
          (case queue_to_board (s3\<lparr>time := replicate (n_games s) 0\<rparr>) of
             Inl e \<Rightarrow> Inl e
           | Inr ob \<Rightarrow> Inr (s3\<lparr>time := replicate (n_games s) 0\<rparr>, ob)))"

subsection \<open>Movement\<close>

text \<open>
  The action array that the caller passes to \<open>step\<close>, with its integer dtype: a
  signed one (numpy's default \<open>int64\<close>, or int8 to int32) or an unsigned one of the
  given width (\<open>uint8\<close> to \<open>uint64\<close>).
\<close>

datatype dtype = Signed | Unsigned nat

datatype action_array = Array (dtype_of: dtype) (elems: "int list")

abbreviation int64 :: "int list \<Rightarrow> action_array" where
  "int64 xs \<equiv> Array Signed xs"

abbreviation uint8 :: "int list \<Rightarrow> action_array" where
  "uint8 xs \<equiv> Array (Unsigned 8) xs"

text \<open>
  \<open>_get_new_direction\<close>. The directions are a \<open>uint8\<close> array. The difference
  \<open>action - current_direction\<close> is computed in the dtype of the action array: exactly
  for a signed one, modulo \<open>2 ^ w\<close> for an unsigned one of width \<open>w\<close>, on which
  \<open>np.abs\<close> does nothing. The assignment \<open>new_dir[f] = action[f]\<close> casts into the
  \<open>uint8\<close> array of directions. Arrays of different lengths either fail to broadcast
  (\<open>ValueError\<close>) or fail in the boolean indexing (\<open>IndexError\<close>).
\<close>

definition abs_diff :: "dtype \<Rightarrow> int \<Rightarrow> int \<Rightarrow> int" where
  "abs_diff dt a d = (case dt of Signed \<Rightarrow> \<bar>a - d\<bar> | Unsigned w \<Rightarrow> (a - d) mod 2 ^ w)"

definition new_dir_elem :: "dtype \<Rightarrow> int \<Rightarrow> int \<Rightarrow> int" where
  "new_dir_elem dt a d = (if abs_diff dt a d \<noteq> 2 \<and> a \<noteq> - 1 then a mod 256 else d)"

definition get_new_direction :: "action_array \<Rightarrow> int list \<Rightarrow> py_error + int list" where
  "get_new_direction action current_direction =
     (if length (elems action) = length current_direction
      then Inr (map2 (new_dir_elem (dtype_of action)) (elems action) current_direction)
      else if length (elems action) = 1 \<or> length current_direction = 1 then Inl IndexError
      else Inl ValueError)"

text \<open>
  The movement filters \<open>self._action_conv\<close> of shape (3,3,4), the 3x3 windows that
  \<open>as_strided\<close> cuts from the head mask, \<open>np.tensordot\<close> of the two (in \<open>uint8\<close>), the
  selection by the one-hot action and the final padding with zeros.
\<close>

definition action_conv :: "nat \<Rightarrow> nat \<Rightarrow> nat \<Rightarrow> int" where
  "action_conv a b k =
     (if (a, b, k) = (1, 0, 0) \<or> (a, b, k) = (2, 1, 1) \<or> (a, b, k) = (1, 2, 2)
         \<or> (a, b, k) = (0, 1, 3) then 1 else 0)"

definition tensordot_cell :: "grid \<Rightarrow> nat \<Rightarrow> nat \<Rightarrow> nat \<Rightarrow> int" where
  "tensordot_cell h i j k =
     (\<Sum>a\<leftarrow>[0, 1, 2]. \<Sum>b\<leftarrow>[0, 1, 2]. h ! (i + a) ! (j + b) * action_conv a b k) mod 256"

definition one_hot :: "int \<Rightarrow> nat \<Rightarrow> int" where
  "one_hot d k = (if d = int k then 1 else 0)"

definition new_head_lane :: "nat \<Rightarrow> grid \<Rightarrow> int \<Rightarrow> grid" where
  "new_head_lane S h d =
     np_pad1 0 (S - 2)
       (map (\<lambda>i. map (\<lambda>j. \<Sum>k\<leftarrow>[0, 1, 2, 3]. (tensordot_cell h i j k * one_hot d k) mod 256)
          [0..<S - 2]) [0..<S - 2])"

definition get_new_head :: "snake \<Rightarrow> action_array \<Rightarrow> int list \<Rightarrow> py_error + batch" where
  "get_new_head s action current_direction =
     (case get_new_direction action current_direction of
        Inl e \<Rightarrow> Inl e
      | Inr dirs \<Rightarrow>
          if length dirs = n_games s \<and> list_all (\<lambda>d. d < 4) dirs
          then Inr (map (\<lambda>n. new_head_lane (board_size s) (head s ! n) (dirs ! n))
                 [0..<n_games s])
          else Inl IndexError)"

subsection \<open>Termination check, move and step\<close>

definition get_food_reward :: "snake \<Rightarrow> int" where
  "get_food_reward s = rw_food (rewards s)"

definition get_death_reward :: "snake \<Rightarrow> int" where
  "get_death_reward s = rw_out (rewards s)"

text \<open>
  \<open>_check_if_done\<close>. The first test of its loop sums over the whole batch array and
  returns for all games at once. Every other path evaluates \<open>new_head.row\<close> next (line
  279), where \<open>new_head\<close> is the array that \<open>_get_new_head\<close> returned: an array has no
  attribute \<open>row\<close>, so the wall, self-collision, food and time-limit tests that follow
  are never reached.
\<close>

definition check_if_done :: "snake \<Rightarrow> action_array \<Rightarrow> py_error + outcome" where
  "check_if_done s action =
     (case get_new_head s action (snake_direction s) of
        Inl e \<Rightarrow> Inl e
      | Inr new_head \<Rightarrow>
          if board s = [] then Inl IndexError
          else if count_eq (hd (board s)) v_board = 0 \<and> count_eq (hd (board s)) v_food = 0
          then Inr \<lparr>reward = map (\<lambda>x. x + get_food_reward s)
                       (replicate (n_games s) (rw_time (rewards s) * 1)),
                    done_flag = 1,
                    can_eat_food = replicate (n_games s) 0,
                    termination_reason = ''game_end''\<rparr>
          else Inl AttributeError)"

text \<open>
  \<open>_move_snake\<close> computes the new head mask, copies the first frame and then reads
  \<open>self._snake_head\<close> (line 322), an attribute that the object does not have.
\<close>

definition move_snake :: "snake \<Rightarrow> action_array \<Rightarrow> int list \<Rightarrow> py_error + snake" where
  "move_snake s action cef =
     (case get_new_head s action (snake_direction s) of
        Inl e \<Rightarrow> Inl e
      | Inr new_head \<Rightarrow> if board s = [] then Inl IndexError else Inl AttributeError)"

definition step :: "snake \<Rightarrow> action_array \<Rightarrow> int list \<Rightarrow> py_error + (snake \<times> step_result)" where
  "step s action seq =
     (case check_if_done s action of
        Inl e \<Rightarrow> Inl e
      | Inr oc \<Rightarrow>
          (case (if done_flag oc = 0
                 then (case move_snake s action (can_eat_food oc) of
                         Inl e \<Rightarrow> Inl e
                       | Inr s1 \<Rightarrow>
                           (case get_new_direction action (snake_direction s1) of
                              Inl e \<Rightarrow> Inl e
                            | Inr d \<Rightarrow>
                                (case truth (can_eat_food oc) of
                                   Inl e \<Rightarrow> Inl e
                                 | Inr t \<Rightarrow>
                                     if t then get_food (s1\<lparr>snake_direction := d\<rparr>) seq
                                     else Inr (s1\<lparr>snake_direction := d\<rparr>))))
                 else Inr s) of
             Inl e \<Rightarrow> Inl e
           | Inr s3 \<Rightarrow>
               (case queue_to_board (s3\<lparr>time := map (\<lambda>t. t + 1) (time s3)\<rparr>) of
                  Inl e \<Rightarrow> Inl e
                | Inr ob \<Rightarrow>
                    Inr (s3\<lparr>time := map (\<lambda>t. t + 1) (time s3)\<rparr>,
                         \<lparr>observation = ob, st_reward = reward oc, st_done = done_flag oc,
                          info_time = map (\<lambda>t. t + 1) (time s3),
                          info_food = count_food s3,
                          info_reason = termination_reason oc\<rparr>))))"

section \<open>Concrete objects\<close>

text \<open>
  The object of the scenario with board side 6, one game, two frames and start length
  2, as \<open>__init__\<close> builds it, and its state after \<open>reset\<close> when the shuffle leaves the
  indices in ascending order (the food then lands on row 4, column 4).
\<close>

definition border6 :: grid where
  "border6 = [[4, 4, 4, 4, 4, 4], [4, 0, 0, 0, 0, 4], [4, 0, 0, 0, 0, 4],
              [4, 0, 0, 0, 0, 4], [4, 0, 0, 0, 0, 4], [4, 4, 4, 4, 4, 4]]"

definition zeros6 :: grid where
  "zeros6 = [[0, 0, 0, 0, 0, 0], [0, 0, 0, 0, 0, 0], [0, 0, 0, 0, 0, 0],
             [0, 0, 0, 0, 0, 0], [0, 0, 0, 0, 0, 0], [0, 0, 0, 0, 0, 0]]"

definition seq6 :: "int list" where
  "seq6 = [0, 1, 2, 3, 4, 5, 6, 7, 8, 9, 10, 11, 12, 13, 14, 15, 16, 17,
           18, 19, 20, 21, 22, 23, 24, 25, 26, 27, 28, 29, 30, 31, 32, 33, 34, 35]"

definition env6 :: snake where
  "env6 = \<lparr>board_size = 6, n_frames = 2, n_games = 1,
     rewards = \<lparr>rw_out = - 1, rw_food = 1, rw_time = 0, rw_no_food = 0\<rparr>,
     start_length = 2, max_time_limit = 298, border = [border6],
     board = [], body = [], food = [], head = [],
     snake_length = 0, count_food = 0, snake_direction = [], time = []\<rparr>"

definition fresh6 :: grid where
  "fresh6 = [[4, 4, 4, 4, 4, 4], [4, 0, 0, 0, 0, 4], [4, 0, 0, 0, 0, 4],
             [4, 1, 2, 0, 0, 4], [4, 0, 0, 0, 0, 4], [4, 4, 4, 4, 4, 4]]"

definition fed6 :: grid where
  "fed6 = [[4, 4, 4, 4, 4, 4], [4, 0, 0, 0, 0, 4], [4, 0, 0, 0, 0, 4],
           [4, 1, 2, 0, 0, 4], [4, 0, 0, 0, 3, 4], [4, 4, 4, 4, 4, 4]]"

definition scenario6 :: snake where
  "scenario6 = env6\<lparr>
     board := [[fed6], [fresh6]],
     body := [[[0, 0, 0, 0, 0, 0], [0, 0, 0, 0, 0, 0], [0, 0, 0, 0, 0, 0],
               [0, 1, 0, 0, 0, 0], [0, 0, 0, 0, 0, 0], [0, 0, 0, 0, 0, 0]]],
     food := [[[0, 0, 0, 0, 0, 0], [0, 0, 0, 0, 0, 0], [0, 0, 0, 0, 0, 0],
               [0, 0, 0, 0, 0, 0], [0, 0, 0, 0, 1, 0], [0, 0, 0, 0, 0, 0]]],
     head := [[[0, 0, 0, 0, 0, 0], [0, 0, 0, 0, 0, 0], [0, 0, 0, 0, 0, 0],
               [0, 0, 1, 0, 0, 0], [0, 0, 0, 0, 0, 0], [0, 0, 0, 0, 0, 0]]],
     snake_length := 2, count_food := 0, snake_direction := [0], time := [0]\<rparr>"

text \<open>
  The board of that scenario with the head two cells further right, on row 3, column 4,
  next to the border column 5.
\<close>

definition at_wall6 :: snake where
  "at_wall6 = scenario6\<lparr>
     board := [[[[4, 4, 4, 4, 4, 4], [4, 0, 0, 0, 0, 4], [4, 0, 0, 0, 0, 4],
                 [4, 0, 0, 1, 2, 4], [4, 0, 0, 0, 3, 4], [4, 4, 4, 4, 4, 4]]],
               [[[4, 4, 4, 4, 4, 4], [4, 0, 0, 0, 0, 4], [4, 0, 0, 0, 0, 4],
                 [4, 0, 1, 2, 0, 4], [4, 0, 0, 0, 3, 4], [4, 4, 4, 4, 4, 4]]]],
     body := [[[0, 0, 0, 0, 0, 0], [0, 0, 0, 0, 0, 0], [0, 0, 0, 0, 0, 0],
               [0, 0, 0, 1, 0, 0], [0, 0, 0, 0, 0, 0], [0, 0, 0, 0, 0, 0]]],
     head := [[[0, 0, 0, 0, 0, 0], [0, 0, 0, 0, 0, 0], [0, 0, 0, 0, 0, 0],
               [0, 0, 0, 0, 1, 0], [0, 0, 0, 0, 0, 0], [0, 0, 0, 0, 0, 0]]],
     time := [2]\<rparr>"

text \<open>The same object inside \<open>reset\<close>, just before it calls \<open>_get_food\<close>.\<close>

definition prefood6 :: snake where
  "prefood6 = scenario6\<lparr>board := [[fresh6], [fresh6]], food := [zeros6], time := []\<rparr>"

text \<open>
  A board of side 4 whose four interior cells the snake has just filled by eating the
  last food: the first frame has neither an empty cell nor food, the older frame shows
  the board before that move.
\<close>

definition full4 :: snake where
  "full4 = \<lparr>board_size = 4, n_frames = 2, n_games = 1,
     rewards = \<lparr>rw_out = - 1, rw_food = 1, rw_time = 0, rw_no_food = 0\<rparr>,
     start_length = 1, max_time_limit = 298,
     border = [[[4, 4, 4, 4], [4, 0, 0, 4], [4, 0, 0, 4], [4, 4, 4, 4]]],
     board = [[[[4, 4, 4, 4], [4, 1, 1, 4], [4, 2, 1, 4], [4, 4, 4, 4]]],
              [[[4, 4, 4, 4], [4, 1, 1, 4], [4, 3, 2, 4], [4, 4, 4, 4]]]],
     body = [[[0, 0, 0, 0], [0, 3, 2, 0], [0, 0, 1, 0], [0, 0, 0, 0]]],
     food = [[[0, 0, 0, 0], [0, 0, 0, 0], [0, 0, 0, 0], [0, 0, 0, 0]]],
     head = [[[0, 0, 0, 0], [0, 0, 0, 0], [0, 1, 0, 0], [0, 0, 0, 0]]],
     snake_length = 4, count_food = 3, snake_direction = [2], time = [3]\<rparr>"

text \<open>
  Two batches of two games on boards of side 4. Game 0 is the same full board in both;
  game 1 is full in the first batch and has an empty cell and food in the second.
  \<open>lane_view\<close> collects what belongs to one game.
\<close>

definition lanes_full :: snake where
  "lanes_full = \<lparr>board_size = 4, n_frames = 1, n_games = 2,
     rewards = \<lparr>rw_out = - 1, rw_food = 1, rw_time = 0, rw_no_food = 0\<rparr>,
     start_length = 1, max_time_limit = 298,
     border = [[[4, 4, 4, 4], [4, 0, 0, 4], [4, 0, 0, 4], [4, 4, 4, 4]],
               [[4, 4, 4, 4], [4, 0, 0, 4], [4, 0, 0, 4], [4, 4, 4, 4]]],
     board = [[[[4, 4, 4, 4], [4, 1, 1, 4], [4, 2, 1, 4], [4, 4, 4, 4]],
               [[4, 4, 4, 4], [4, 1, 1, 4], [4, 2, 1, 4], [4, 4, 4, 4]]]],
     body = [[[0, 0, 0, 0], [0, 3, 2, 0], [0, 0, 1, 0], [0, 0, 0, 0]],
             [[0, 0, 0, 0], [0, 3, 2, 0], [0, 0, 1, 0], [0, 0, 0, 0]]],
     food = [[[0, 0, 0, 0], [0, 0, 0, 0], [0, 0, 0, 0], [0, 0, 0, 0]],
             [[0, 0, 0, 0], [0, 0, 0, 0], [0, 0, 0, 0], [0, 0, 0, 0]]],
     head = [[[0, 0, 0, 0], [0, 0, 0, 0], [0, 1, 0, 0], [0, 0, 0, 0]],
             [[0, 0, 0, 0], [0, 0, 0, 0], [0, 1, 0, 0], [0, 0, 0, 0]]],
     snake_length = 4, count_food = 3, snake_direction = [2, 2], time = [3, 3]\<rparr>"

definition lanes_mixed :: snake where
  "lanes_mixed = lanes_full\<lparr>
     board := [[[[4, 4, 4, 4], [4, 1, 1, 4], [4, 2, 1, 4], [4, 4, 4, 4]],
                [[4, 4, 4, 4], [4, 0, 3, 4], [4, 2, 1, 4], [4, 4, 4, 4]]]],
     body := [[[0, 0, 0, 0], [0, 3, 2, 0], [0, 0, 1, 0], [0, 0, 0, 0]],
              [[0, 0, 0, 0], [0, 0, 0, 0], [0, 0, 1, 0], [0, 0, 0, 0]]],
     food := [[[0, 0, 0, 0], [0, 0, 0, 0], [0, 0, 0, 0], [0, 0, 0, 0]],
              [[0, 0, 0, 0], [0, 0, 1, 0], [0, 0, 0, 0], [0, 0, 0, 0]]]\<rparr>"

definition lane_view ::
  "snake \<Rightarrow> nat \<Rightarrow> grid list \<times> grid \<times> grid \<times> grid \<times> grid \<times> int \<times> int" where
  "lane_view s i =
     (map (\<lambda>fr. fr ! i) (board s), border s ! i, body s ! i, food s ! i, head s ! i,
      snake_direction s ! i, time s ! i)"

text \<open>
  A board of side 5 with a snake of four cells curled in a square: head on row 1,
  column 1, moving left, its tail on row 2, column 1, directly below the head.
\<close>

definition tail_chase :: snake where
  "tail_chase = \<lparr>board_size = 5, n_frames = 1, n_games = 1,
     rewards = \<lparr>rw_out = - 1, rw_food = 1, rw_time = 0, rw_no_food = 0\<rparr>,
     start_length = 1, max_time_limit = 298,
     border = [[[4, 4, 4, 4, 4], [4, 0, 0, 0, 4], [4, 0, 0, 0, 4], [4, 0, 0, 0, 4],
                [4, 4, 4, 4, 4]]],
     board = [[[[4, 4, 4, 4, 4], [4, 2, 1, 0, 4], [4, 1, 1, 0, 4], [4, 0, 0, 3, 4],
                [4, 4, 4, 4, 4]]]],
     body = [[[0, 0, 0, 0, 0], [0, 0, 1, 0, 0], [0, 3, 2, 0, 0], [0, 0, 0, 0, 0],
              [0, 0, 0, 0, 0]]],
     food = [[[0, 0, 0, 0, 0], [0, 0, 0, 0, 0], [0, 0, 0, 0, 0], [0, 0, 0, 1, 0],
              [0, 0, 0, 0, 0]]],
     head = [[[0, 0, 0, 0, 0], [0, 1, 0, 0, 0], [0, 0, 0, 0, 0], [0, 0, 0, 0, 0],
              [0, 0, 0, 0, 0]]],
     snake_length = 4, count_food = 3, snake_direction = [2], time = [7]\<rparr>"

text \<open>
  The object of board side 3 (one interior cell, start length clamped to 0) and a
  shuffle that gives that interior cell, index 4, the number 0.
\<close>

definition env3 :: snake where
  "env3 = \<lparr>board_size = 3, n_frames = 1, n_games = 1,
     rewards = \<lparr>rw_out = - 1, rw_food = 1, rw_time = 0, rw_no_food = 0\<rparr>,
     start_length = 0, max_time_limit = 298,
     border = [[[4, 4, 4], [4, 0, 4], [4, 4, 4]]],
     board = [], body = [], food = [], head = [],
     snake_length = 0, count_food = 0, snake_direction = [], time = []\<rparr>"

definition seq3 :: "int list" where
  "seq3 = [4, 1, 2, 3, 0, 5, 6, 7, 8]"

text \<open>
  That object inside \<open>reset\<close> just before \<open>_get_food\<close> is called (the head sits on
  column 0, the interior cell is empty), and the sorted shuffle for comparison.
\<close>

definition prefood3 :: snake where
  "prefood3 = env3\<lparr>
     board := [[[[4, 4, 4], [6, 0, 4], [4, 4, 4]]]],
     body := [[[0, 0, 0], [0, 0, 0], [0, 0, 0]]],
     food := [[[0, 0, 0], [0, 0, 0], [0, 0, 0]]],
     head := [[[0, 0, 0], [1, 0, 0], [0, 0, 0]]],
     snake_length := 0, count_food := 0, snake_direction := [0]\<rparr>"

definition sorted3 :: "int list" where
  "sorted3 = [0, 1, 2, 3, 4, 5, 6, 7, 8]"

section \<open>Facts about the operations\<close>

subsection \<open>The queue of frames and the fresh food array\<close>

lemma deque_append_funpow:
  assumes "length q \<le> m"
  shows "((\<lambda>q. deque_append m q x) ^^ k) q = drop (length q + k - m) (q @ replicate k x)"
proof (induction k)
  case 0
  with assms show ?case by simp
next
  case (Suc k)
  define ys where "ys = q @ replicate k x"
  define d where "d = length q + k - m"
  have len: "length ys = length q + k" and d: "d \<le> length ys"
    by (simp_all add: ys_def d_def)
  have e: "q @ replicate (Suc k) x = ys @ [x]"
    by (simp add: ys_def replicate_append_same)
  have "((\<lambda>q. deque_append m q x) ^^ Suc k) q = deque_append m (drop d ys) x"
    using Suc by (simp add: ys_def d_def)
  also have "\<dots> = drop (Suc (length ys - d) - m) (drop d (ys @ [x]))"
    using d by (simp add: deque_append_def)
  also have "\<dots> = drop (Suc (length ys - d) - m + d) (ys @ [x])"
    by (simp only: drop_drop)
  also have "Suc (length ys - d) - m + d = length q + Suc k - m"
    using len by (simp add: d_def)
  finally show ?case by (simp only: e)
qed

lemma fill_queue_board:
  "length (board s) \<le> n_frames s \<Longrightarrow>
     board (fill_queue s) = replicate (n_frames s) (calculate_board s)"
  by (simp add: fill_queue_def deque_append_funpow)

lemma funpow_max_zero: "(max 0 ^^ k) (0::int) = 0"
  by (induction k) simp_all

lemma concat_replicate_zeros:
  "concat (replicate n (replicate m (0::int))) = replicate (n * m) 0"
  by (induction n) (simp_all add: replicate_add)

lemma amax_zero_grid: "0 < S \<Longrightarrow> amax (concat (replicate S (replicate S 0))) = 0"
  by (simp add: amax_def concat_replicate_zeros funpow_max_zero)

lemma get_food_returns:
  "board s \<noteq> [] \<Longrightarrow> 0 < board_size s \<Longrightarrow>
     get_food s seq = Inr (s\<lparr>food := new_food s seq,
        board := calculate_board (s\<lparr>food := new_food s seq\<rparr>) # tl (board s)\<rparr>)"
  by (simp add: get_food_def set_first_frame_def)

lemma calculate_board_cell:
  "n < n_games s \<Longrightarrow> r < board_size s \<Longrightarrow> c < board_size s \<Longrightarrow>
     calculate_board s ! n ! r ! c =
       border s ! n ! r ! c + (if body s ! n ! r ! c > 0 then 1 else 0) * v_snake
         + (head s ! n ! r ! c * v_head) mod 256 + (food s ! n ! r ! c * v_food) mod 256"
  by (simp add: calculate_board_def)

lemma new_food_fresh_cell:
  assumes "food s = replicate (n_games s) (replicate (board_size s) (replicate (board_size s) 0))"
    and "n < n_games s" "r < board_size s" "c < board_size s"
  shows "new_food s seq ! n ! r ! c = food_chosen s seq n r c"
proof -
  from assms have "food_max s n = 0"
    by (simp add: food_max_def amax_zero_grid)
  moreover have "food_chosen s seq n r c \<in> {0, 1}"
    by (simp add: food_chosen_def)
  ultimately show ?thesis
    using assms by (auto simp: new_food_def)
qed

lemma reset_returns:
  assumes "0 < n_frames s0" "0 < board_size s0" "length (board s0) \<le> n_frames s0"
  shows "\<exists>ob. reset s0 seq =
     Inr ((reset_arrays s0)\<lparr>
            food := new_food (fill_queue (reset_arrays s0)) seq,
            board := calculate_board ((reset_arrays s0)\<lparr>food := new_food (fill_queue (reset_arrays s0)) seq\<rparr>)
                       # replicate (n_frames s0 - 1) (calculate_board (reset_arrays s0)),
            time := replicate (n_games s0) 0\<rparr>, ob)"
proof -
  let ?s1 = "reset_arrays s0"
  have f: "n_frames ?s1 = n_frames s0" "board ?s1 = board s0" "board_size ?s1 = board_size s0" "n_games ?s1 = n_games s0"
    by (simp_all add: reset_arrays_def)
  have b: "board (fill_queue ?s1) = replicate (n_frames s0) (calculate_board ?s1)"
    using assms(3) fill_queue_board [of ?s1] by (simp add: f)
  have fq: "fill_queue ?s1 = ?s1\<lparr>board := replicate (n_frames s0) (calculate_board ?s1)\<rparr>"
    using b by (simp add: fill_queue_def)
  obtain k where k: "n_frames s0 = Suc k" using assms(1) by (cases "n_frames s0") auto
  show ?thesis
    using assms(2) 
    by (simp add: reset_def fq get_food_returns f k queue_to_board_def calculate_board_def)
qed

subsection \<open>Which steps return\<close>

lemma get_new_head_returns:
  assumes "get_new_direction action cur = Inr dirs" "length dirs = n_games s"
    "list_all (\<lambda>d. d < 4) dirs"
  shows "get_new_head s action cur =
     Inr (map (\<lambda>n. new_head_lane (board_size s) (head s ! n) (dirs ! n)) [0..<n_games s])"
  using assms by (simp add: get_new_head_def)

lemma check_if_done_full:
  assumes "get_new_direction action (snake_direction s) = Inr dirs" "length dirs = n_games s"
    "list_all (\<lambda>d. d < 4) dirs" "board s \<noteq> []"
    "count_eq (hd (board s)) v_board = 0" "count_eq (hd (board s)) v_food = 0"
  shows "check_if_done s action =
     Inr \<lparr>reward = replicate (n_games s) (rw_time (rewards s) + rw_food (rewards s)),
          done_flag = 1, can_eat_food = replicate (n_games s) 0,
          termination_reason = ''game_end''\<rparr>"
  using assms(4-6) by (simp add: check_if_done_def get_new_head_returns [OF assms(1-3)] get_food_reward_def)

lemma check_if_done_not_full:
  assumes "get_new_direction action (snake_direction s) = Inr dirs" "length dirs = n_games s"
    "list_all (\<lambda>d. d < 4) dirs" "board s \<noteq> []"
    "count_eq (hd (board s)) v_board \<noteq> 0 \<or> count_eq (hd (board s)) v_food \<noteq> 0"
  shows "check_if_done s action = Inl AttributeError"
  using assms(4-5) by (auto simp: check_if_done_def get_new_head_returns [OF assms(1-3)])

lemma step_raises: "check_if_done s action = Inl e \<Longrightarrow> step s action seq = Inl e"
  by (simp add: step_def)

lemma step_game_end:
  assumes "check_if_done s action = Inr oc" "done_flag oc \<noteq> 0" "board s \<noteq> []"
  shows "\<exists>ob. step s action seq =
     Inr (s\<lparr>time := map (\<lambda>t. t + 1) (time s)\<rparr>,
          \<lparr>observation = ob, st_reward = reward oc, st_done = done_flag oc,
           info_time = map (\<lambda>t. t + 1) (time s), info_food = count_food s,
           info_reason = termination_reason oc\<rparr>)
     \<and> queue_to_board s = Inr ob"
  using assms by (simp add: step_def queue_to_board_def)





section \<open>Direction changes\<close>

lemma new_dir_elem_valid:
  "a \<in> {0, 1, 2, 3} \<Longrightarrow> \<bar>a - d\<bar> \<noteq> 2 \<Longrightarrow> new_dir_elem Signed a d = a"
  by (auto simp: new_dir_elem_def abs_diff_def)

lemma new_dir_elem_keep:
  "\<bar>a - d\<bar> = 2 \<or> a = - 1 \<Longrightarrow> new_dir_elem Signed a d = d"
  by (auto simp: new_dir_elem_def abs_diff_def)

lemma new_dir_elem_written:
  "a \<noteq> - 1 \<Longrightarrow> \<bar>a - d\<bar> \<noteq> 2 \<Longrightarrow> new_dir_elem Signed a d = a mod 256"
  by (simp add: new_dir_elem_def abs_diff_def)

text \<open>
  With an unsigned action array the difference wraps: the action 0 (right) against the
  direction 2 (left) gives 254, not 2, and the reversal is taken; the action 2 against
  the direction 0 gives 2 and is refused.
\<close>

lemma unsigned_reversal:
  "get_new_direction (uint8 [0, 2]) [2, 0] = Inr [0, 0]"
  by (simp add: get_new_direction_def new_dir_elem_def abs_diff_def)

text \<open>
  Claim C4, as the code has it, for an action array of a signed integer dtype. For every
  game \<open>i\<close> of the batch, \<open>_get_new_direction\<close> raises nothing and returns the action
  where the action is one of 0, 1, 2, 3 and does not differ from the current direction
  by exactly 2; it keeps the current direction where the two differ by exactly 2 (a
  reversal) and where the action is the sentinel -1. Every other action is not ignored:
  it is written into the direction array, cast to \<open>uint8\<close>.
\<close>

theorem C4_new_direction:
  assumes "dtype_of action = Signed"
    and "length (elems action) = length current_direction"
    and "i < length current_direction"
  shows "\<exists>nd. get_new_direction action current_direction = Inr nd
           \<and> length nd = length current_direction
           \<and> (elems action ! i \<in> {0, 1, 2, 3}
                \<and> \<bar>elems action ! i - current_direction ! i\<bar> \<noteq> 2
                \<longrightarrow> nd ! i = elems action ! i)
           \<and> (\<bar>elems action ! i - current_direction ! i\<bar> = 2
                \<longrightarrow> nd ! i = current_direction ! i)
           \<and> (elems action ! i = - 1 \<longrightarrow> nd ! i = current_direction ! i)
           \<and> (elems action ! i \<noteq> - 1
                \<and> \<bar>elems action ! i - current_direction ! i\<bar> \<noteq> 2
                \<longrightarrow> nd ! i = elems action ! i mod 256)"
  using assms
  by (simp add: get_new_direction_def new_dir_elem_valid new_dir_elem_keep new_dir_elem_written)

text \<open>Three games: a turn, a reversal and the sentinel.\<close>

theorem C4_new_direction_witness:
  "dtype_of (int64 [1, 2, - 1]) = Signed
   \<and> length (elems (int64 [1, 2, - 1])) = length [0, 0, 3 :: int]
   \<and> (0 :: nat) < length [0, 0, 3 :: int]
   \<and> get_new_direction (int64 [1, 2, - 1]) [0, 0, 3] = Inr [1, 0, 3]"
  using C4_new_direction [of "int64 [1, 2, - 1]" "[0, 0, 3]" 0]
  by (simp add: get_new_direction_def new_dir_elem_def abs_diff_def)

text \<open>
  An action outside 0, 1, 2, 3 other than the sentinel is not ignored: with the current
  direction 0 (right), the action 5 of an \<open>int64\<close> array becomes the new direction.
\<close>

theorem C4_counterexample:
  "(5 :: int) \<notin> {0, 1, 2, 3} \<and> get_new_direction (int64 [5]) [0] = Inr [5]"
  by (simp add: get_new_direction_def new_dir_elem_def abs_diff_def)

section \<open>The candidate head\<close>

lemma unit_mask_nth:
  "r < S \<Longrightarrow> c < S \<Longrightarrow> unit_mask S r0 c0 ! r ! c = (if r = r0 \<and> c = c0 then 1 else 0)"
  by (simp add: unit_mask_def)

lemma tensordot_cell_unit:
  assumes "i + 2 < S" "j + 2 < S"
  shows "tensordot_cell (unit_mask S r0 c0) i j k =
     (if k = 0 \<and> i + 1 = r0 \<and> j = c0 \<or> k = 1 \<and> i + 2 = r0 \<and> j + 1 = c0
         \<or> k = 2 \<and> i + 1 = r0 \<and> j + 2 = c0 \<or> k = 3 \<and> i = r0 \<and> j + 1 = c0
      then 1 else 0)"
  using assms by (simp add: tensordot_cell_def action_conv_def unit_mask_nth)

lemma np_pad1_length: "length (np_pad1 v k g) = k + 2"
  by (simp add: np_pad1_def del: upt_Suc)

lemma np_pad1_row:
  assumes "r < k + 2"
  shows "np_pad1 v k g ! r =
     map (\<lambda>c. if 0 < r \<and> r \<le> k \<and> 0 < c \<and> c \<le> k then g ! (r - 1) ! (c - 1) else v) [0..<k + 2]"
proof -
  define m where "m = k + 2"
  have "np_pad1 v k g =
      map (\<lambda>r. map (\<lambda>c. if 0 < r \<and> r \<le> k \<and> 0 < c \<and> c \<le> k
        then g ! (r - 1) ! (c - 1) else v) [0..<m]) [0..<m]"
    unfolding np_pad1_def m_def ..
  moreover have "r < m" using assms by (simp add: m_def)
  ultimately show ?thesis by (simp add: m_def del: upt_Suc)
qed

lemma np_pad1_nth:
  assumes "r < k + 2" "c < k + 2"
  shows "np_pad1 v k g ! r ! c =
     (if 0 < r \<and> r \<le> k \<and> 0 < c \<and> c \<le> k then g ! (r - 1) ! (c - 1) else v)"
proof -
  from assms(2) show ?thesis
    unfolding np_pad1_row [OF assms(1)] by (simp del: upt_Suc)
qed

lemma np_pad1_row_length: "r < k + 2 \<Longrightarrow> length (np_pad1 v k g ! r) = k + 2"
  by (simp add: np_pad1_row del: upt_Suc)

lemma new_head_lane_nth:
  assumes "2 \<le> S" "r < S" "c < S"
  shows "new_head_lane S h d ! r ! c =
     (if 0 < r \<and> r \<le> S - 2 \<and> 0 < c \<and> c \<le> S - 2
      then (\<Sum>k\<leftarrow>[0, 1, 2, 3]. (tensordot_cell h (r - 1) (c - 1) k * one_hot d k) mod 256)
      else 0)"
proof -
  from assms have b: "r < S - 2 + 2" "c < S - 2 + 2" by simp_all
  show ?thesis
    unfolding new_head_lane_def np_pad1_nth [OF b] by auto
qed

lemma new_head_lane_length:
  assumes "2 \<le> S"
  shows "length (new_head_lane S h d) = S"
    and "r < S \<Longrightarrow> length (new_head_lane S h d ! r) = S"
proof -
  show "length (new_head_lane S h d) = S"
    using assms by (simp add: new_head_lane_def np_pad1_length)
  assume "r < S"
  with assms have "r < S - 2 + 2" by simp
  from np_pad1_row_length [OF this] assms show "length (new_head_lane S h d ! r) = S"
    by (simp add: new_head_lane_def)
qed

lemma new_head_lane_into_border:
  assumes S: "3 \<le> S" and r0: "1 \<le> r0" "r0 \<le> S - 2" and c0: "1 \<le> c0" "c0 \<le> S - 2"
    and d: "d = 0 \<and> c0 = S - 2 \<or> d = 1 \<and> r0 = 1 \<or> d = 2 \<and> c0 = 1 \<or> d = 3 \<and> r0 = S - 2"
  shows "new_head_lane S (unit_mask S r0 c0) d = replicate S (replicate S 0)"
proof -
  from S have S2: "2 \<le> S" by simp
  show ?thesis
  proof (rule nth_equalityI)
    show "length (new_head_lane S (unit_mask S r0 c0) d) = length (replicate S (replicate S (0::int)))"
      by (simp add: new_head_lane_length [OF S2])
  next
    fix r assume "r < length (new_head_lane S (unit_mask S r0 c0) d)"
    then have r: "r < S" by (simp add: new_head_lane_length [OF S2])
    show "new_head_lane S (unit_mask S r0 c0) d ! r = replicate S (replicate S 0) ! r"
    proof (rule nth_equalityI)
      show "length (new_head_lane S (unit_mask S r0 c0) d ! r) = length (replicate S (replicate S (0::int)) ! r)"
        using r by (simp add: new_head_lane_length [OF S2])
    next
      fix c assume "c < length (new_head_lane S (unit_mask S r0 c0) d ! r)"
      then have c: "c < S" using r by (simp add: new_head_lane_length [OF S2])
      have "new_head_lane S (unit_mask S r0 c0) d ! r ! c = 0"
      proof (cases "0 < r \<and> r \<le> S - 2 \<and> 0 < c \<and> c \<le> S - 2")
        case False
        then show ?thesis unfolding new_head_lane_nth [OF S2 r c] by (simp only: if_False)
      next
        case True
        then have b: "r - 1 + 2 < S" "c - 1 + 2 < S" using S by auto
        have z: "tensordot_cell (unit_mask S r0 c0) (r - 1) (c - 1) k * one_hot d k = 0" for k
          using True S r0 c0 d unfolding tensordot_cell_unit [OF b] one_hot_def by auto
        from True show ?thesis
          unfolding new_head_lane_nth [OF S2 r c] by (simp only: z if_True) simp
      qed
      with r c show "new_head_lane S (unit_mask S r0 c0) d ! r ! c = replicate S (replicate S 0) ! r ! c"
        by simp
    qed
  qed
qed

text \<open>
  Claim C10. When the head mask of game \<open>n\<close> has its single 1 on an interior cell next
  to the border ring, and the resolved direction of that game points into the border,
  the candidate-head array that \<open>_get_new_head\<close> returns for that game is zero
  everywhere: the 3x3 windows only produce interior positions and the ring around them is
  padded with 0.
\<close>

theorem C10_move_into_border:
  assumes "get_new_direction action current_direction = Inr dirs"
    and "get_new_head s action current_direction = Inr new_head"
    and "n < n_games s" and "3 \<le> board_size s"
    and "head s ! n = unit_mask (board_size s) r0 c0"
    and "1 \<le> r0" "r0 \<le> board_size s - 2" "1 \<le> c0" "c0 \<le> board_size s - 2"
    and "dirs ! n = 0 \<and> c0 = board_size s - 2 \<or> dirs ! n = 1 \<and> r0 = 1
         \<or> dirs ! n = 2 \<and> c0 = 1 \<or> dirs ! n = 3 \<and> r0 = board_size s - 2"
  shows "new_head ! n = replicate (board_size s) (replicate (board_size s) 0)"
proof -
  from assms(1,2) have "new_head =
      map (\<lambda>n. new_head_lane (board_size s) (head s ! n) (dirs ! n)) [0..<n_games s]"
    by (simp add: get_new_head_def split: if_splits)
  with assms(3) have "new_head ! n = new_head_lane (board_size s) (head s ! n) (dirs ! n)"
    by simp
  with assms(4-) show ?thesis
    by (simp add: new_head_lane_into_border)
qed


text \<open>The head on row 3, column 4 of the board of side 6, moving right.\<close>

theorem C10_move_into_border_witness:
  "get_new_direction (int64 [0]) [0] = Inr [0] \<and> head at_wall6 ! 0 = unit_mask 6 3 4
   \<and> (\<exists>nh. get_new_head at_wall6 (int64 [0]) [0] = Inr nh \<and> nh ! 0 = zeros6)"
proof -
  have d: "get_new_direction (int64 [0]) [0] = Inr [0]"
    by (simp add: get_new_direction_def new_dir_elem_def abs_diff_def)
  have sz: "board_size at_wall6 = 6" "n_games at_wall6 = 1"
    by code_simp+
  have h: "head at_wall6 ! 0 = unit_mask (board_size at_wall6) 3 4"
    by code_simp
  have g: "get_new_head at_wall6 (int64 [0]) [0] =
      Inr (map (\<lambda>n. new_head_lane (board_size at_wall6) (head at_wall6 ! n) ([0] ! n))
        [0..<n_games at_wall6])"
    by (rule get_new_head_returns [OF d]) (simp_all add: sz)
  have z: "zeros6 = replicate (board_size at_wall6) (replicate (board_size at_wall6) 0)"
    by code_simp
  from C10_move_into_border [OF d g _ _ h] have "map (\<lambda>n. new_head_lane (board_size at_wall6) (head at_wall6 ! n) ([0] ! n))
        [0..<n_games at_wall6] ! 0 = zeros6"
    by (simp add: sz z)
  with d h g show ?thesis by (simp add: sz)
qed

section \<open>Two concrete runs\<close>

subsection \<open>Reset of the scenario object\<close>

lemma init6: "init 6 2 1 2 298 = Inr env6"
  by code_simp

lemma fill_queue6: "fill_queue (reset_arrays env6) = prefood6"
  by code_simp

lemma prefood6_size: "board_size prefood6 = 6" "n_games prefood6 = 1" "board prefood6 \<noteq> []"
  by code_simp+

lemma new_food6: "new_food prefood6 seq6 = food scenario6"
  unfolding new_food_def prefood6_size
  apply (simp add: upt_rec)
  apply code_simp
  done

lemma set_first_frame6:
  "set_first_frame (prefood6\<lparr>food := food scenario6\<rparr>) = Inr (scenario6\<lparr>time := []\<rparr>)"
  by code_simp

lemma get_food6: "get_food prefood6 seq6 = Inr (scenario6\<lparr>time := []\<rparr>)"
  by (simp add: get_food_def prefood6_size new_food6 set_first_frame6)

lemma scenario6_size:
  "board_size scenario6 = 6" "n_games scenario6 = 1" "n_frames scenario6 = 2"
  "board scenario6 = [[fed6], [fresh6]]" "snake_direction scenario6 = [0]"
  by code_simp+

lemma reset6: "\<exists>ob. reset env6 seq6 = Inr (scenario6, ob) \<and> queue_to_board scenario6 = Inr ob"
proof -
  have "scenario6\<lparr>time := replicate (n_games env6) 0\<rparr> = scenario6"
    by (simp add: scenario6_def env6_def)
  then show ?thesis
    by (simp add: reset_def fill_queue6 get_food6 queue_to_board_def scenario6_size)
qed

subsection \<open>A step on the full board\<close>

lemma full4_facts:
  "get_new_direction (int64 [2]) (snake_direction full4) = Inr [2]"
  "length [2 :: int] = n_games full4" "list_all (\<lambda>d. d < 4) [2 :: int]" "board full4 \<noteq> []"
  "count_eq (hd (board full4)) v_board = 0" "count_eq (hd (board full4)) v_food = 0"
  by code_simp+

lemma check_full4:
  "check_if_done full4 (int64 [2]) =
     Inr \<lparr>reward = [1], done_flag = 1, can_eat_food = [0], termination_reason = ''game_end''\<rparr>"
proof -
  have "n_games full4 = 1" "rw_time (rewards full4) + rw_food (rewards full4) = 1"
    by code_simp+
  with check_if_done_full [OF full4_facts] show ?thesis by simp
qed

lemma step_full4:
  "\<exists>r. step full4 (int64 [2]) seq = Inr (full4\<lparr>time := [4]\<rparr>, r) \<and> st_done r = 1
     \<and> st_reward r = [1] \<and> info_reason r = ''game_end''"
proof -
  have t: "map (\<lambda>t. t + 1) (time full4) = [4]" by code_simp
  from step_game_end [OF check_full4 _ full4_facts(4), of seq] show ?thesis
    by (auto simp: t)
qed

section \<open>Finished games and the queue of frames\<close>





lemma reset_Inr_sizes:
  assumes "length (board s0) \<le> n_frames s0" and "reset s0 seq = Inr (s, ob)"
  shows "0 < n_frames s0" and "0 < board_size s0"
proof -
  show "0 < n_frames s0"
  proof (rule ccontr)
    assume "\<not> 0 < n_frames s0"
    with assms(1) have "board (fill_queue (reset_arrays s0)) = []"
      by (simp add: fill_queue_def reset_arrays_def)
    with assms(2) show False by (simp add: reset_def get_food_def)
  qed
  show "0 < board_size s0"
  proof (rule ccontr)
    assume "\<not> 0 < board_size s0"
    then have "board_size (fill_queue (reset_arrays s0)) = 0"
      by (simp add: fill_queue_def reset_arrays_def)
    with assms(2) show False by (simp add: reset_def get_food_def split: if_splits)
  qed
qed

lemma reset_state:
  assumes "length (board s0) \<le> n_frames s0" and "reset s0 seq = Inr (s, ob)"
  shows "s = (reset_arrays s0)\<lparr>
            food := new_food (fill_queue (reset_arrays s0)) seq,
            board := calculate_board ((reset_arrays s0)\<lparr>food := new_food (fill_queue (reset_arrays s0)) seq\<rparr>)
                       # replicate (n_frames s0 - 1) (calculate_board (reset_arrays s0)),
            time := replicate (n_games s0) 0\<rparr>"
    and "queue_to_board s = Inr ob"
proof -
  note z = reset_Inr_sizes [OF assms]
  from reset_returns [OF z assms(1), of seq] assms(2) show "s = (reset_arrays s0)\<lparr>
            food := new_food (fill_queue (reset_arrays s0)) seq,
            board := calculate_board ((reset_arrays s0)\<lparr>food := new_food (fill_queue (reset_arrays s0)) seq\<rparr>)
                       # replicate (n_frames s0 - 1) (calculate_board (reset_arrays s0)),
            time := replicate (n_games s0) 0\<rparr>"
    by auto
  from assms(2) show "queue_to_board s = Inr ob"
    by (auto simp: reset_def split: sum.splits)
qed

lemma terminal_step_frames:
  assumes "step s action seq = Inr (s', r)" and "st_done r \<noteq> 0"
  shows "board s' = board s" and "n_frames s' = n_frames s"
  using assms by (auto simp: step_def split: sum.splits if_splits)

text \<open>
  Claim C6, as the code has it. After \<open>reset\<close> the queue holds exactly \<open>n_frames\<close>
  frames. A terminal step, one that reports done, pushes nothing: the gate
  \<open>if(done == 0)\<close> keeps it away from \<open>_move_snake\<close>, and the queue of frames after
  it is the queue before it.
\<close>

theorem C6_frame_history:
  assumes "length (board s0) \<le> n_frames s0" and "reset s0 seq = Inr (s, ob)"
    and "step s1 action seq' = Inr (s2, r)" and "st_done r \<noteq> 0"
  shows "length (board s) = n_frames s \<and> n_frames s = n_frames s0
     \<and> board s2 = board s1 \<and> n_frames s2 = n_frames s1"
proof -
  note z = reset_Inr_sizes [OF assms(1,2)]
  have "length (board s) = n_frames s0" and "n_frames s = n_frames s0"
    using z(1) unfolding reset_state(1) [OF assms(1,2)] by (simp_all add: reset_arrays_def)
  with terminal_step_frames [OF assms(3,4)] show ?thesis by simp
qed

text \<open>The reset of the scenario object and a terminal step on the full board of side 4.\<close>

theorem C6_frame_history_witness:
  "length (board env6) \<le> n_frames env6 \<and> (\<exists>ob. reset env6 seq6 = Inr (scenario6, ob))
   \<and> length (board scenario6) = n_frames scenario6
   \<and> (\<exists>s2 r. step full4 (int64 [2]) [] = Inr (s2, r) \<and> st_done r \<noteq> 0
         \<and> board s2 = board full4)"
proof -
  have l: "length (board env6) \<le> n_frames env6" by code_simp
  from reset6 obtain ob where r: "reset env6 seq6 = Inr (scenario6, ob)" by blast
  from step_full4 [of "[]"] obtain r1 where
    s: "step full4 (int64 [2]) [] = Inr (full4\<lparr>time := [4]\<rparr>, r1)"
    and d: "st_done r1 \<noteq> 0" by auto
  from C6_frame_history [OF l r s d] l r s d show ?thesis by blast
qed

text \<open>
  A terminal step does not push a grid and drop the oldest: on the full board of side 4,
  whose two frames differ, no grid \<open>g\<close> makes the queue after the step equal to
  \<open>appendleft\<close> of \<open>g\<close> on the queue before it.
\<close>

theorem C6_counterexample:
  "\<exists>s1 r1. step full4 (int64 [2]) [] = Inr (s1, r1) \<and> st_done r1 = 1
     \<and> \<not> (\<exists>g. board s1 = deque_appendleft (n_frames full4) (board full4) g)"
proof -
  from step_full4 [of "[]"] obtain r1 where
    s: "step full4 (int64 [2]) [] = Inr (full4\<lparr>time := [4]\<rparr>, r1)" and d: "st_done r1 = 1" by blast
  have "\<not> (\<exists>g. board (full4\<lparr>time := [4]\<rparr>) = deque_appendleft (n_frames full4) (board full4) g)"
    by (simp add: full4_def deque_appendleft_def)
  with s d show ?thesis by blast
qed

section \<open>The observation after reset\<close>

lemma init_fields:
  assumes "init bsize frames games slen mtl = Inr s0"
  shows "board_size s0 = bsize" "n_frames s0 = frames" "n_games s0 = games" "board s0 = []"
    "2 \<le> bsize"
  using assms by (auto simp: init_def split: if_splits)

lemma fresh_food_cell:
  assumes "n < n_games s0" "r < board_size s0" "c < board_size s0"
  shows "food (reset_arrays s0) ! n ! r ! c = 0"
  using assms by (simp add: reset_arrays_def)

lemma new_food_reset_cell:
  assumes "n < n_games s0" "r < board_size s0" "c < board_size s0"
  shows "new_food (fill_queue (reset_arrays s0)) seq ! n ! r ! c
           = food_chosen (fill_queue (reset_arrays s0)) seq n r c"
  by (rule new_food_fresh_cell) (use assms in \<open>simp_all add: fill_queue_def reset_arrays_def\<close>)

lemma food_chosen_01: "food_chosen s seq n r c = 0 \<or> food_chosen s seq n r c = 1"
  by (simp add: food_chosen_def)

lemma reset_frame0_cell:
  assumes "n < n_games s0" "r < board_size s0" "c < board_size s0"
  shows "calculate_board ((reset_arrays s0)\<lparr>food := new_food (fill_queue (reset_arrays s0)) seq\<rparr>) ! n ! r ! c
       = calculate_board (reset_arrays s0) ! n ! r ! c
         + v_food * food_chosen (fill_queue (reset_arrays s0)) seq n r c"
proof -
  have sz: "n < n_games (reset_arrays s0)" "r < board_size (reset_arrays s0)"
    "c < board_size (reset_arrays s0)"
    using assms by (simp_all add: reset_arrays_def)
  have sz': "n < n_games ((reset_arrays s0)\<lparr>food := F\<rparr>)" "r < board_size ((reset_arrays s0)\<lparr>food := F\<rparr>)"
    "c < board_size ((reset_arrays s0)\<lparr>food := F\<rparr>)" for F
    using sz by simp_all
  show ?thesis
    unfolding calculate_board_cell [OF sz] calculate_board_cell [OF sz']
    using food_chosen_01 [of "fill_queue (reset_arrays s0)" seq n r c]
    by (auto simp: new_food_reset_cell [OF assms] fresh_food_cell [OF assms] v_food_def)
qed

text \<open>
  Claim C7, as the code has it. For every object that \<open>__init__\<close> builds with at
  least one frame, \<open>reset\<close> returns an observation of shape (games, size, size,
  frames). Every frame behind the first is the fresh initial grid (border, body and head,
  no food). The first frame is that grid with the food added, 3 on the chosen cell:
  \<open>_get_food\<close> runs after the queue is filled and rewrites only the first frame.
\<close>

theorem C7_reset_observation:
  assumes "init bsize frames games slen mtl = Inr s0" and "0 < frames"
  shows "\<exists>s ob. reset s0 seq = Inr (s, ob) \<and> length ob = games
     \<and> (\<forall>n<games. length (ob ! n) = bsize
          \<and> (\<forall>r<bsize. length (ob ! n ! r) = bsize
               \<and> (\<forall>c<bsize. length (ob ! n ! r ! c) = frames
                    \<and> tl (ob ! n ! r ! c)
                        = replicate (frames - 1) (calculate_board (reset_arrays s0) ! n ! r ! c)
                    \<and> hd (ob ! n ! r ! c)
                        = calculate_board (reset_arrays s0) ! n ! r ! c
                          + v_food * food s ! n ! r ! c
                    \<and> food s ! n ! r ! c \<in> {0, 1})))"
proof -
  note f = init_fields [OF assms(1)]
  have pos: "0 < n_frames s0" "0 < board_size s0" "length (board s0) \<le> n_frames s0"
    using f assms(2) by simp_all
  define NF where "NF = new_food (fill_queue (reset_arrays s0)) seq"
  define s where "s = (reset_arrays s0)\<lparr>food := NF,
      board := calculate_board ((reset_arrays s0)\<lparr>food := NF\<rparr>)
                 # replicate (n_frames s0 - 1) (calculate_board (reset_arrays s0)),
      time := replicate (n_games s0) 0\<rparr>"
  from reset_returns [OF pos, of seq] obtain ob where r: "reset s0 seq = Inr (s, ob)"
    unfolding s_def NF_def by blast
  then have "queue_to_board s = Inr ob"
    by (auto simp: reset_def split: sum.splits)
  then have ob: "ob = map (\<lambda>n. map (\<lambda>r. map (\<lambda>c. map (\<lambda>fr. fr ! n ! r ! c) (board s))
        [0..<bsize]) [0..<bsize]) [0..<games]"
    by (auto simp: queue_to_board_def s_def reset_arrays_def f split: if_splits)
  have cell: "hd (ob ! n ! r ! c) = calculate_board (reset_arrays s0) ! n ! r ! c + v_food * food s ! n ! r ! c
      \<and> tl (ob ! n ! r ! c) = replicate (frames - 1) (calculate_board (reset_arrays s0) ! n ! r ! c)
      \<and> length (ob ! n ! r ! c) = frames \<and> food s ! n ! r ! c \<in> {0, 1}"
    if "n < games" "r < bsize" "c < bsize" for n r c
  proof -
    from that have a: "n < n_games s0" "r < board_size s0" "c < board_size s0"
      by (simp_all add: f)
    from that assms(2) show ?thesis
      using food_chosen_01 [of "fill_queue (reset_arrays s0)" seq n r c]
      by (auto simp: ob s_def NF_def new_food_reset_cell [OF a] reset_frame0_cell [OF a] f
          map_replicate_const)
  qed
  have "length ob = games" by (simp add: ob)
  moreover have "\<forall>n<games. length (ob ! n) = bsize
          \<and> (\<forall>r<bsize. length (ob ! n ! r) = bsize
               \<and> (\<forall>c<bsize. length (ob ! n ! r ! c) = frames
                    \<and> tl (ob ! n ! r ! c)
                        = replicate (frames - 1) (calculate_board (reset_arrays s0) ! n ! r ! c)
                    \<and> hd (ob ! n ! r ! c)
                        = calculate_board (reset_arrays s0) ! n ! r ! c
                          + v_food * food s ! n ! r ! c
                    \<and> food s ! n ! r ! c \<in> {0, 1}))"
    using cell by (simp add: ob)
  ultimately show ?thesis using r by blast
qed


text \<open>
  The scenario object with two frames.
\<close>

theorem C7_reset_observation_witness:
  "init 6 2 1 2 298 = Inr env6 \<and> (0 :: nat) < 2
   \<and> (\<exists>s ob. reset env6 seq6 = Inr (s, ob) \<and> length ob = 1 \<and> length (ob ! 0 ! 4 ! 4) = 2
         \<and> tl (ob ! 0 ! 4 ! 4) = [calculate_board (reset_arrays env6) ! 0 ! 4 ! 4])"
proof -
  have p: "(0 :: nat) < 2" by simp
  from C7_reset_observation [OF init6 p, of seq6] obtain s ob where
    r: "reset env6 seq6 = Inr (s, ob)" and l: "length ob = 1"
    and a: "\<forall>n<1. length (ob ! n) = 6
          \<and> (\<forall>r<6. length (ob ! n ! r) = 6
               \<and> (\<forall>c<6. length (ob ! n ! r ! c) = 2
                    \<and> tl (ob ! n ! r ! c)
                        = replicate (2 - 1) (calculate_board (reset_arrays env6) ! n ! r ! c)
                    \<and> hd (ob ! n ! r ! c)
                        = calculate_board (reset_arrays env6) ! n ! r ! c
                          + v_food * food s ! n ! r ! c
                    \<and> food s ! n ! r ! c \<in> {0, 1}))"
    by blast
  from a have "length (ob ! 0 ! 4 ! 4) = 2
      \<and> tl (ob ! 0 ! 4 ! 4) = replicate (2 - 1) (calculate_board (reset_arrays env6) ! 0 ! 4 ! 4)"
    by simp
  then have "length (ob ! 0 ! 4 ! 4) = 2
      \<and> tl (ob ! 0 ! 4 ! 4) = [calculate_board (reset_arrays env6) ! 0 ! 4 ! 4]"
    by simp
  with init6 p r l show ?thesis by blast
qed

text \<open>
  The frames of a fresh observation are not all the same grid: after the reset of the
  scenario object the cell on row 4, column 4 holds food (3) in the first frame and is
  empty (0) in the second.
\<close>

theorem C7_counterexample:
  "init 6 2 1 2 298 = Inr env6
   \<and> (\<exists>s ob. reset env6 seq6 = Inr (s, ob) \<and> ob ! 0 ! 4 ! 4 = [3, 0])"
proof -
  from reset6 obtain ob where r: "reset env6 seq6 = Inr (scenario6, ob)"
    and q: "queue_to_board scenario6 = Inr ob" by blast
  from q have "ob = map (\<lambda>n. map (\<lambda>r. map (\<lambda>c. map (\<lambda>fr. fr ! n ! r ! c) [[fed6], [fresh6]])
        [0..<6]) [0..<6]) [0..<1]"
    by (simp add: queue_to_board_def scenario6_size)
  then have "ob ! 0 ! 4 ! 4 = map (\<lambda>fr. fr ! 0 ! 4 ! 4) [[fed6], [fresh6]]"
    by (simp del: upt_Suc)
  also have "\<dots> = [3, 0]" by code_simp
  finally show ?thesis using init6 r by blast
qed

section \<open>Food placement\<close>

text \<open>
  What \<open>_get_food\<close> does to one game: a game that has food keeps its food array; in a
  game without food no occupied cell is marked; and when some empty cell carries a
  positive number of the shuffle, exactly one cell is marked, an empty one.
\<close>

lemma amax_Max: "xs \<noteq> [] \<Longrightarrow> amax xs = Max (set xs)"
  by (cases xs) (simp_all add: amax_def Max.set_eq_fold [symmetric])

lemma food_pos_cells:
  "set (concat (map (\<lambda>r. map (\<lambda>c. food_pos s seq n r c) [0..<S]) [0..<S]))
     = {food_pos s seq n r c | r c. r < S \<and> c < S}"
  by (auto; blast)

lemma food_pos_max_ge:
  assumes "r < board_size s" "c < board_size s"
  shows "food_pos s seq n r c \<le> food_pos_max s seq n"
proof -
  let ?xs = "concat (map (\<lambda>r. map (\<lambda>c. food_pos s seq n r c) [0..<board_size s]) [0..<board_size s])"
  have m: "food_pos s seq n r c \<in> set ?xs"
    unfolding food_pos_cells using assms by blast
  then have ne: "?xs \<noteq> []" by auto
  have "food_pos_max s seq n = Max (set ?xs)"
    by (simp add: food_pos_max_def amax_Max [OF ne])
  with m show ?thesis by simp
qed

lemma food_pos_max_attained:
  assumes "0 < board_size s"
  shows "\<exists>r c. r < board_size s \<and> c < board_size s \<and> food_pos s seq n r c = food_pos_max s seq n"
proof -
  let ?xs = "concat (map (\<lambda>r. map (\<lambda>c. food_pos s seq n r c) [0..<board_size s]) [0..<board_size s])"
  have "food_pos s seq n 0 0 \<in> set ?xs"
    unfolding food_pos_cells using assms by blast
  then have ne: "?xs \<noteq> []" by auto
  then have "Max (set ?xs) \<in> set ?xs" by (intro Max_in) simp_all
  moreover have "food_pos_max s seq n = Max (set ?xs)"
    by (simp add: food_pos_max_def amax_Max [OF ne])
  ultimately have "food_pos_max s seq n \<in> set ?xs" by simp
  then show ?thesis unfolding food_pos_cells by simp metis
qed

lemma new_food_keeps_food:
  assumes "food_max s n = 1" "n < n_games s" "r < board_size s" "c < board_size s"
    and "food s ! n ! r ! c = 0 \<or> food s ! n ! r ! c = 1"
  shows "new_food s seq ! n ! r ! c = food s ! n ! r ! c"
  using assms by (auto simp: new_food_def)

lemma new_food_no_food:
  assumes "food_max s n = 0" "n < n_games s" "r < board_size s" "c < board_size s"
  shows "new_food s seq ! n ! r ! c = food_chosen s seq n r c"
proof -
  have "food_chosen s seq n r c = 0 \<or> food_chosen s seq n r c = 1"
    by (simp add: food_chosen_def)
  with assms show ?thesis by (auto simp: new_food_def)
qed

lemma food_chosen_empty:
  "food_chosen s seq n r c = 1 \<Longrightarrow> hd (board s) ! n ! r ! c = v_board"
  by (auto simp: food_chosen_def food_pos_def v_board_def split: if_splits)

lemma new_food_occupied:
  assumes "food_max s n = 0" "n < n_games s" "r < board_size s" "c < board_size s"
    and "hd (board s) ! n ! r ! c \<noteq> v_board"
  shows "new_food s seq ! n ! r ! c = 0"
proof -
  from assms(5) have "food_pos s seq n r c = 0"
    by (simp add: food_pos_def)
  then have "food_chosen s seq n r c = 0"
    by (simp add: food_chosen_def v_board_def)
  with assms(1-4) show ?thesis
    by (simp add: new_food_no_food)
qed

lemma cell_index_inj:
  assumes "r * S + c = r' * S + c'" "c < S" "c' < S"
  shows "r = r' \<and> c = (c' :: nat)"
proof -
  from assms have "(r * S + c) div S = (r' * S + c') div S" "(r * S + c) mod S = (r' * S + c') mod S"
    by simp_all
  with assms(2,3) show ?thesis by simp
qed

lemma cell_index_bound:
  assumes "n < N" "r < S" "c < (S :: nat)"
  shows "n * S * S + r * S + c < N * S * S"
proof -
  from assms(3) have "r * S + c < Suc r * S" by simp
  also from assms(2) have "\<dots> \<le> S * S" by (intro mult_le_mono1) simp
  finally have "r * S + c < S * S" .
  then have "n * S * S + r * S + c < Suc n * (S * S)" by (simp add: algebra_simps)
  also from assms(1) have "\<dots> \<le> N * (S * S)" by (intro mult_le_mono1) simp
  finally show ?thesis by (simp add: algebra_simps)
qed


lemma new_food_places_one:
  assumes nf: "food_max s n = 0" and n: "n < n_games s"
    and seq: "distinct seq" "length seq = n_games s * board_size s * board_size s"
    and e: "r0 < board_size s" "c0 < board_size s" "hd (board s) ! n ! r0 ! c0 = v_board"
      "0 < seq ! (n * board_size s * board_size s + r0 * board_size s + c0)"
  shows "\<exists>r c. r < board_size s \<and> c < board_size s \<and> hd (board s) ! n ! r ! c = v_board
     \<and> (\<forall>r' c'. r' < board_size s \<longrightarrow> c' < board_size s \<longrightarrow>
           new_food s seq ! n ! r' ! c' = (if r' = r \<and> c' = c then 1 else 0))"
proof -
  let ?S = "board_size s"
  let ?i = "\<lambda>r c. n * ?S * ?S + r * ?S + c"
  from e(1) have S: "0 < ?S" by simp
  from food_pos_max_attained [OF S, of seq n] obtain r c where
    rc: "r < ?S" "c < ?S" and m: "food_pos s seq n r c = food_pos_max s seq n"
    by blast
  from e have "0 < food_pos s seq n r0 c0"
    by (simp add: food_pos_def)
  with food_pos_max_ge [OF e(1,2), of seq n] have pos: "0 < food_pos_max s seq n"
    by simp
  with m have emp: "hd (board s) ! n ! r ! c = v_board"
    by (auto simp: food_pos_def split: if_splits)
  with m have val: "seq ! ?i r c = food_pos_max s seq n"
    by (simp add: food_pos_def)
  have "new_food s seq ! n ! r' ! c' = (if r' = r \<and> c' = c then 1 else 0)"
    if b: "r' < ?S" "c' < ?S" for r' c'
  proof (cases "r' = r \<and> c' = c")
    case True
    with m pos rc n nf show ?thesis
      by (simp add: new_food_no_food food_chosen_def v_board_def)
  next
    case False
    have "food_pos s seq n r' c' \<noteq> food_pos_max s seq n"
    proof
      assume a: "food_pos s seq n r' c' = food_pos_max s seq n"
      with pos have "seq ! ?i r' c' = food_pos_max s seq n"
        by (auto simp: food_pos_def split: if_splits)
      with val have "seq ! ?i r' c' = seq ! ?i r c" by simp
      moreover have "?i r' c' < length seq" "?i r c < length seq"
        using cell_index_bound [OF n b] cell_index_bound [OF n rc] by (simp_all add: seq(2))
      ultimately have "?i r' c' = ?i r c"
        using seq(1) by (simp add: nth_eq_iff_index_eq)
      then have "r' * ?S + c' = r * ?S + c" by simp
      from cell_index_inj [OF this b(2) rc(2)] False show False by simp
    qed
    with False b n nf show ?thesis
      by (simp add: new_food_no_food food_chosen_def)
  qed
  with rc emp show ?thesis by blast
qed

section \<open>Steps after reset\<close>

text \<open>
  On a board of side 4 or more the cell on row 1, column 1 is empty or food after
  \<open>reset\<close>, whatever the shuffle. The batch is then not full, and every step with a
  well-formed action raises \<open>AttributeError\<close>: no step of a fresh game returns.
\<close>

lemma count_eq_pos:
  assumes "n < length b" "r < length (b ! n)" "c < length (b ! n ! r)" "b ! n ! r ! c = v"
  shows "count_eq b v \<noteq> 0"
proof -
  from assms have "v \<in> set (concat (concat b))"
    by (metis concat.simps(2) in_set_conv_nth nth_mem set_concat UN_I)
  then show ?thesis
    by (simp add: count_eq_def filter_empty_conv)
qed

lemma init_border_corner:
  assumes "init bsize frames games slen mtl = Inr s0" "4 \<le> bsize" "n < games"
  shows "border s0 ! n ! Suc 0 ! Suc 0 = 0"
proof -
  from assms(2) have b: "Suc 0 < bsize - 2 + 2" by simp
  from assms(1) have "border s0 = replicate games
      (np_pad1 v_border (bsize - 2) (replicate (bsize - 2) (replicate (bsize - 2) v_board)))"
    by (auto simp: init_def split: if_splits)
  moreover from assms(2) have "Suc 0 \<le> bsize - 2" by simp
  ultimately show ?thesis
    using assms(3) by (simp add: np_pad1_nth [OF b b] v_board_def)
qed

lemma step_after_reset_raises:
  assumes i: "init bsize frames games slen mtl = Inr s0" and S: "4 \<le> bsize" and N: "0 < games"
    and r: "reset s0 seq = Inr (s, ob)"
    and d: "get_new_direction action (snake_direction s) = Inr dirs"
      "list_all (\<lambda>d. d < 4) dirs"
  shows "step s action seq' = Inl AttributeError"
proof -
  note f = init_fields [OF i]
  have l: "length (board s0) \<le> n_frames s0" by (simp add: f)
  note st = reset_state(1) [OF l r]
  let ?s1 = "reset_arrays s0"
  let ?NF = "new_food (fill_queue ?s1) seq"
  have b: "board s \<noteq> []" and h: "hd (board s) = calculate_board (?s1\<lparr>food := ?NF\<rparr>)"
    and g: "n_games s = games" and sd: "length (snake_direction s) = games"
    unfolding st by (simp_all add: reset_arrays_def f)
  have a: "0 < n_games s0" "1 < board_size s0" using N S by (simp_all add: f)
  have cell: "hd (board s) ! 0 ! 1 ! 1
      = calculate_board ?s1 ! 0 ! 1 ! 1 + v_food * food_chosen (fill_queue ?s1) seq 0 1 1"
    unfolding h by (rule reset_frame0_cell [OF a a(2)])
  from S have "bsize div 2 \<noteq> Suc 0" by arith
  then have "calculate_board ?s1 ! 0 ! 1 ! 1 = 0"
    using S N init_border_corner [OF i S N]
    by (simp add: calculate_board_def reset_arrays_def f unit_mask_def)
  with cell food_chosen_01 [of "fill_queue ?s1" seq 0 1 1]
  have v: "hd (board s) ! 0 ! 1 ! 1 = v_board \<or> hd (board s) ! 0 ! 1 ! 1 = v_food"
    by (auto simp: v_board_def)
  have len: "0 < length (hd (board s))" "1 < length (hd (board s) ! 0)"
    "1 < length (hd (board s) ! 0 ! 1)"
    unfolding h using S N by (simp_all add: calculate_board_def reset_arrays_def f)
  from v have "count_eq (hd (board s)) v_board \<noteq> 0 \<or> count_eq (hd (board s)) v_food \<noteq> 0"
    using count_eq_pos [OF len] by blast
  moreover from d(1) have "length dirs = n_games s"
    by (auto simp: get_new_direction_def g sd split: if_splits)
  ultimately show ?thesis
    using d b by (intro step_raises check_if_done_not_full)
qed

section \<open>Where the code departs from the claims\<close>

subsection \<open>Two batches that agree on game 0\<close>

lemma lanes_full_facts:
  "get_new_direction (int64 [2, 1]) (snake_direction lanes_full) = Inr [2, 1]"
  "length [2, 1 :: int] = n_games lanes_full" "list_all (\<lambda>d. d < 4) [2, 1 :: int]"
  "board lanes_full \<noteq> []"
  "count_eq (hd (board lanes_full)) v_board = 0" "count_eq (hd (board lanes_full)) v_food = 0"
  by code_simp+

lemma lanes_mixed_facts:
  "get_new_direction (int64 [2, 1]) (snake_direction lanes_mixed) = Inr [2, 1]"
  "length [2, 1 :: int] = n_games lanes_mixed" "list_all (\<lambda>d. d < 4) [2, 1 :: int]"
  "board lanes_mixed \<noteq> []"
  "count_eq (hd (board lanes_mixed)) v_board \<noteq> 0 \<or> count_eq (hd (board lanes_mixed)) v_food \<noteq> 0"
  by code_simp+

text \<open>
  Claim C1 on the code. The two batches hold the same game 0, a full board, and the same
  action for it. In the batch whose game 1 is full as well, \<open>_check_if_done\<close> takes
  its board-full branch, which tests the sum over the whole batch array, and returns one
  scalar done = 1 and the reason game_end for all games. In the batch whose game 1 has an
  empty cell the same test fails for the batch as a whole, game 0 is not reported as
  ended, and the call raises at \<open>new_head.row\<close>. What is reported for game 0 depends
  on game 1.
\<close>

theorem C1_lanes_not_independent:
  "lane_view lanes_full 0 = lane_view lanes_mixed 0
   \<and> check_if_done lanes_full (int64 [2, 1]) =
       Inr \<lparr>reward = [1, 1], done_flag = 1, can_eat_food = [0, 0],
            termination_reason = ''game_end''\<rparr>
   \<and> check_if_done lanes_mixed (int64 [2, 1]) = Inl AttributeError
   \<and> (\<exists>r. step lanes_full (int64 [2, 1]) [] = Inr (lanes_full\<lparr>time := [4, 4]\<rparr>, r)
         \<and> st_done r = 1 \<and> st_reward r = [1, 1] \<and> info_reason r = ''game_end'')
   \<and> step lanes_mixed (int64 [2, 1]) [] = Inl AttributeError"
proof -
  have v: "lane_view lanes_full 0 = lane_view lanes_mixed 0"
    by code_simp
  have e: "n_games lanes_full = 2" "rw_time (rewards lanes_full) + rw_food (rewards lanes_full) = 1"
    "map (\<lambda>t. t + 1) (time lanes_full) = [4, 4]"
    by code_simp+
  have two: "replicate 2 x = [x, x]" for x :: int
    by (simp add: numeral_2_eq_2)
  from check_if_done_full [OF lanes_full_facts] have f: "check_if_done lanes_full (int64 [2, 1]) =
       Inr \<lparr>reward = [1, 1], done_flag = 1, can_eat_food = [0, 0],
            termination_reason = ''game_end''\<rparr>"
    by (simp add: e two)
  note m = check_if_done_not_full [OF lanes_mixed_facts]
  from step_game_end [OF f _ lanes_full_facts(4), of "[]"]
  have "\<exists>r. step lanes_full (int64 [2, 1]) [] = Inr (lanes_full\<lparr>time := [4, 4]\<rparr>, r)
         \<and> st_done r = 1 \<and> st_reward r = [1, 1] \<and> info_reason r = ''game_end''"
    by (auto simp: e)
  with v f m step_raises [OF m, of "[]"] show ?thesis by blast
qed

subsection \<open>The scenario\<close>

lemma scenario6_facts:
  "get_new_direction (int64 [0]) (snake_direction scenario6) = Inr [0]"
  "length [0 :: int] = n_games scenario6" "list_all (\<lambda>d. d < 4) [0 :: int]"
  "board scenario6 \<noteq> []"
  "count_eq (hd (board scenario6)) v_board \<noteq> 0 \<or> count_eq (hd (board scenario6)) v_food \<noteq> 0"
  by code_simp+

lemma new_head_scenario6: "new_head_lane 6 (head scenario6 ! 0) 0 = unit_mask 6 3 3"
  unfolding new_head_lane_def np_pad1_def unit_mask_def
  apply (simp add: upt_rec)
  apply code_simp
  done

text \<open>
  Claim C2 on the code. \<open>reset\<close> places the scenario as the claim says: head on row 3,
  column 2, a body cell on row 3, column 1, direction 0 (right), and the candidate head
  for the action right is row 3, column 3. The first step already raises
  \<open>AttributeError\<close> (an array has no attribute \<open>row\<close>), so the head never moves and the
  third step with its wall collision is never reached.
\<close>

theorem C2_first_step_raises:
  "init 6 2 1 2 298 = Inr env6
   \<and> (\<exists>ob. reset env6 seq6 = Inr (scenario6, ob))
   \<and> head scenario6 ! 0 ! 3 ! 2 = 1 \<and> body scenario6 ! 0 ! 3 ! 1 = 1
   \<and> snake_direction scenario6 = [0]
   \<and> get_new_head scenario6 (int64 [0]) (snake_direction scenario6) = Inr [unit_mask 6 3 3]
   \<and> step scenario6 (int64 [0]) [] = Inl AttributeError"
proof -
  have a: "head scenario6 ! 0 ! 3 ! 2 = 1" "body scenario6 ! 0 ! 3 ! 1 = 1"
    by code_simp+
  from get_new_head_returns [OF scenario6_facts(1-3)]
  have g: "get_new_head scenario6 (int64 [0]) (snake_direction scenario6) = Inr [unit_mask 6 3 3]"
    by (simp add: scenario6_size new_head_scenario6)
  note s = step_raises [OF check_if_done_not_full [OF scenario6_facts], of "[]"]
  from reset6 init6 a g s scenario6_size(5) show ?thesis by blast
qed


subsection \<open>A move onto the tail\<close>

lemma tail_chase_facts:
  "get_new_direction (int64 [3]) (snake_direction tail_chase) = Inr [3]"
  "length [3 :: int] = n_games tail_chase" "list_all (\<lambda>d. d < 4) [3 :: int]"
  "board tail_chase \<noteq> []"
  "count_eq (hd (board tail_chase)) v_board \<noteq> 0 \<or> count_eq (hd (board tail_chase)) v_food \<noteq> 0"
  by code_simp+

lemma new_head_tail_chase: "new_head_lane 5 (head tail_chase ! 0) 3 = unit_mask 5 2 1"
  unfolding new_head_lane_def np_pad1_def unit_mask_def
  apply (simp add: upt_rec)
  apply code_simp
  done

text \<open>
  Claim C5 on the code. On the curled snake the action down makes row 2, column 1 the
  candidate head; that cell is a body cell and holds the largest body number, the tail.
  The board is not full and the clock is below the limit, yet the step does not move the
  head there: it raises \<open>AttributeError\<close>.
\<close>

theorem C5_tail_move_raises:
  "get_new_head tail_chase (int64 [3]) (snake_direction tail_chase) = Inr [unit_mask 5 2 1]
   \<and> body tail_chase ! 0 ! 2 ! 1 = amax (concat (body tail_chase ! 0))
   \<and> hd (board tail_chase) ! 0 ! 2 ! 1 = v_snake
   \<and> time tail_chase = [7] \<and> max_time_limit tail_chase = 298
   \<and> step tail_chase (int64 [3]) [] = Inl AttributeError"
proof -
  have sz: "board_size tail_chase = 5" "n_games tail_chase = 1"
    by code_simp+
  have a: "body tail_chase ! 0 ! 2 ! 1 = amax (concat (body tail_chase ! 0))"
    "hd (board tail_chase) ! 0 ! 2 ! 1 = v_snake"
    "time tail_chase = [7]" "max_time_limit tail_chase = 298"
    by code_simp+
  from get_new_head_returns [OF tail_chase_facts(1-3)]
  have g: "get_new_head tail_chase (int64 [3]) (snake_direction tail_chase) = Inr [unit_mask 5 2 1]"
    by (simp add: sz new_head_tail_chase)
  note s = step_raises [OF check_if_done_not_full [OF tail_chase_facts], of "[]"]
  from a g s show ?thesis by blast
qed

subsection \<open>The time limit\<close>

lemma timeup6_facts:
  "get_new_direction (int64 [1]) (snake_direction (scenario6\<lparr>time := [298]\<rparr>)) = Inr [1]"
  "length [1 :: int] = n_games (scenario6\<lparr>time := [298]\<rparr>)" "list_all (\<lambda>d. d < 4) [1 :: int]"
  "board (scenario6\<lparr>time := [298]\<rparr>) \<noteq> []"
  "count_eq (hd (board (scenario6\<lparr>time := [298]\<rparr>))) v_board \<noteq> 0
     \<or> count_eq (hd (board (scenario6\<lparr>time := [298]\<rparr>))) v_food \<noteq> 0"
  by code_simp+

lemma new_head_up6: "new_head_lane 6 (head scenario6 ! 0) 1 = unit_mask 6 2 2"
  unfolding new_head_lane_def np_pad1_def unit_mask_def
  apply (simp add: upt_rec)
  apply code_simp
  done

text \<open>
  Claim C8 on the code. With the clock at the limit 298 and the action up, whose
  candidate cell on row 2, column 2 is empty, the step does not end the game with the
  reason time_up: it raises \<open>AttributeError\<close> before the time test is reached.
\<close>

theorem C8_time_limit_raises:
  "time (scenario6\<lparr>time := [298]\<rparr>) = [298]
   \<and> max_time_limit (scenario6\<lparr>time := [298]\<rparr>) = 298
   \<and> get_new_head (scenario6\<lparr>time := [298]\<rparr>) (int64 [1])
         (snake_direction (scenario6\<lparr>time := [298]\<rparr>)) = Inr [unit_mask 6 2 2]
   \<and> hd (board (scenario6\<lparr>time := [298]\<rparr>)) ! 0 ! 2 ! 2 = v_board
   \<and> step (scenario6\<lparr>time := [298]\<rparr>) (int64 [1]) [] = Inl AttributeError"
proof -
  have a: "time (scenario6\<lparr>time := [298]\<rparr>) = [298]"
    "max_time_limit (scenario6\<lparr>time := [298]\<rparr>) = 298"
    "hd (board (scenario6\<lparr>time := [298]\<rparr>)) ! 0 ! 2 ! 2 = v_board"
    by code_simp+
  from get_new_head_returns [OF timeup6_facts(1-3)]
  have g: "get_new_head (scenario6\<lparr>time := [298]\<rparr>) (int64 [1])
         (snake_direction (scenario6\<lparr>time := [298]\<rparr>)) = Inr [unit_mask 6 2 2]"
    by (simp add: scenario6_size new_head_up6)
  note s = step_raises [OF check_if_done_not_full [OF timeup6_facts], of "[]"]
  from a g s show ?thesis by blast
qed

subsection \<open>Food on the last empty cell\<close>

lemma prefood3_size: "board_size prefood3 = 3" "n_games prefood3 = 1" "board prefood3 \<noteq> []"
  by code_simp+

lemma new_food3: "new_food prefood3 seq3 = [[[0, 0, 0], [0, 0, 0], [0, 0, 0]]]"
  unfolding new_food_def prefood3_size
  apply (simp add: upt_rec)
  apply code_simp
  done

lemma new_food3_sorted: "new_food prefood3 sorted3 = [[[0, 0, 0], [0, 1, 0], [0, 0, 0]]]"
  unfolding new_food_def prefood3_size
  apply (simp add: upt_rec)
  apply code_simp
  done

text \<open>
  Claim C9 on the code. The board of side 3 has no food and exactly one empty cell, row
  1, column 1. When the shuffle gives that cell the number 0, \<open>_get_food\<close> marks no cell
  at all, and \<open>reset\<close> returns a board without food although an empty cell exists: the
  test \<open>food_pos > 0\<close> cannot tell the number 0 from an occupied cell. With the sorted
  shuffle, which gives the cell the number 4, the food is placed on it.
\<close>

theorem C9_no_food_on_last_cell:
  "init 3 1 1 2 298 = Inr env3
   \<and> fill_queue (reset_arrays env3) = prefood3
   \<and> hd (board prefood3) ! 0 ! 1 ! 1 = v_board
   \<and> count_eq (food prefood3) 1 = 0
   \<and> (\<exists>s. get_food prefood3 seq3 = Inr s \<and> food s = [[[0, 0, 0], [0, 0, 0], [0, 0, 0]]]
         \<and> hd (board s) ! 0 ! 1 ! 1 = v_board)
   \<and> (\<exists>s ob. reset env3 seq3 = Inr (s, ob) \<and> food s = [[[0, 0, 0], [0, 0, 0], [0, 0, 0]]]
         \<and> ob ! 0 ! 1 ! 1 = [v_board])
   \<and> (\<exists>s. get_food prefood3 sorted3 = Inr s \<and> food s = [[[0, 0, 0], [0, 1, 0], [0, 0, 0]]])"
proof -
  have i: "init 3 1 1 2 298 = Inr env3" by code_simp
  have p: "fill_queue (reset_arrays env3) = prefood3" by code_simp
  have a: "hd (board prefood3) ! 0 ! 1 ! 1 = v_board" "count_eq (food prefood3) 1 = 0"
    by code_simp+
  have sf: "set_first_frame (prefood3\<lparr>food := [[[0, 0, 0], [0, 0, 0], [0, 0, 0]]]\<rparr>) = Inr prefood3"
    by code_simp
  have g: "get_food prefood3 seq3 = Inr prefood3"
    by (simp add: get_food_def prefood3_size new_food3 sf)
  have f: "food prefood3 = [[[0, 0, 0], [0, 0, 0], [0, 0, 0]]]" by code_simp
  have q: "queue_to_board (prefood3\<lparr>time := replicate (n_games env3) 0\<rparr>)
      = Inr [[[[4], [4], [4]], [[6], [0], [4]], [[4], [4], [4]]]]"
    by code_simp
  have r: "reset env3 seq3 = Inr (prefood3\<lparr>time := replicate (n_games env3) 0\<rparr>,
      [[[[4], [4], [4]], [[6], [0], [4]], [[4], [4], [4]]]])"
    by (simp add: reset_def p g q)
  have r': "\<exists>s ob. reset env3 seq3 = Inr (s, ob) \<and> food s = [[[0, 0, 0], [0, 0, 0], [0, 0, 0]]]
         \<and> ob ! 0 ! 1 ! 1 = [v_board]"
    unfolding r by (simp add: f v_board_def)
  have sf': "\<exists>s. set_first_frame (prefood3\<lparr>food := [[[0, 0, 0], [0, 1, 0], [0, 0, 0]]]\<rparr>) = Inr s
      \<and> food s = [[[0, 0, 0], [0, 1, 0], [0, 0, 0]]]"
    by (simp add: set_first_frame_def prefood3_size)
  then have g': "\<exists>s. get_food prefood3 sorted3 = Inr s \<and> food s = [[[0, 0, 0], [0, 1, 0], [0, 0, 0]]]"
    by (simp add: get_food_def prefood3_size new_food3_sorted)
  from i p a g f r' g' show ?thesis by auto
qed

end
